theory Spec2Isabelle
  imports Main "HOL-Library.Word" "HOL-Library.Sublist" "HOL-Library.Monad_Syntax"
begin

unbundle bit_operations_syntax

section \<open>Values of the Go program\<close>

text \<open>
  A Go \<^verbatim>\<open>string\<close> is a sequence of bytes and so is a HOL \<open>string\<close>; a \<^verbatim>\<open>[]byte\<close> is a
  list of 8-bit words. The conversion \<^verbatim>\<open>[]byte(s)\<close> copies the bytes.
\<close>

type_synonym byte = "8 word"

definition bytes_of :: "string \<Rightarrow> byte list" where
  "bytes_of s = map of_char s"

text \<open>
  An \<^verbatim>\<open>error\<close> value is known to this package only through its message:
  \<^verbatim>\<open>fmt.Errorf\<close> builds one from a text, and the errors of the libraries are passed on
  as they come.
\<close>

datatype error = Error (message: string)

subsection \<open>The package fmt, as far as iic.go calls it\<close>

text \<open>
  \<^verbatim>\<open>fmt.Sprintf("%x", b)\<close> with \<open>b\<close> a byte slice: fmt writes, for each byte \<open>c\<close>, the two
  characters \<^verbatim>\<open>digits[c>>4]\<close> and \<^verbatim>\<open>digits[c&0xF]\<close>, where for the verb \<open>x\<close> the table is
  \<^verbatim>\<open>ldigits = "0123456789abcdefx"\<close>.
\<close>

definition ldigits :: string where
  "ldigits = ''0123456789abcdefx''"

definition Sprintf_x :: "byte list \<Rightarrow> string" where
  "Sprintf_x b = concat (map (\<lambda>c. [ldigits ! unat (drop_bit 4 c), ldigits ! unat (c AND 0xF)]) b)"

section \<open>The collaborators of GenerateIIC\<close>

text \<open>
  The signing device of \<^verbatim>\<open>github.com/noshto/dsig/pkg/safenet\<close> is outside this package.
  It is a parameter: three operations on the state \<open>'dev\<close> of the device and of the
  session held by the \<^verbatim>\<open>SafeNet\<close> value. \<^verbatim>\<open>Initialize\<close> returns an error or nil,
  \<^verbatim>\<open>SignPKCS1v15\<close> returns the signature or an error, \<^verbatim>\<open>Finalize\<close> returns nothing.
\<close>

record ('cfg, 'dev) SafeNet =
  Initialize :: "'cfg \<Rightarrow> 'dev \<Rightarrow> error option \<times> 'dev"
  SignPKCS1v15 :: "byte list \<Rightarrow> 'dev \<Rightarrow> (error + byte list) \<times> 'dev"
  Finalize :: "'dev \<Rightarrow> 'dev"

text \<open>
  A \<^verbatim>\<open>hash.Hash\<close> as \<^verbatim>\<open>crypto.SHA256.New()\<close> and \<^verbatim>\<open>crypto.MD5.New()\<close> return it: a fresh
  state, \<^verbatim>\<open>Write\<close> that absorbs bytes and returns an error or nil, and \<^verbatim>\<open>Sum(b)\<close> that
  appends the digest of what was absorbed to \<open>b\<close>. The two hash functions are parameters.
\<close>

record 'h Hash =
  New :: 'h
  Write :: "'h \<Rightarrow> byte list \<Rightarrow> 'h \<times> error option"
  Sum :: "'h \<Rightarrow> byte list \<Rightarrow> byte list"

subsection \<open>The document\<close>

text \<open>
  The element tree of \<^verbatim>\<open>github.com/beevik/etree\<close> is outside this package. iic.go
  uses a document in two ways: it asks for the element a path selects
  (\<^verbatim>\<open>FindElement\<close>, nil when there is none) and it reads, removes and creates attributes
  of the element it got. An element is a pointer, here an address; the document records
  which address each path selects and the attribute list \<^verbatim>\<open>Attr\<close> of every element, in
  order. The paths of iic.go (\<^verbatim>\<open>//Seller\<close>, \<^verbatim>\<open>//Invoice\<close>) select by tag, so that a
  change of attributes leaves what they select as it was. An attribute is its key and
  its value; keys are written without namespace prefix, as iic.go writes them.
\<close>

type_synonym element = nat

type_synonym attr = "string \<times> string"

record document =
  selects :: "string \<Rightarrow> element option"
  Attr :: "element \<Rightarrow> attr list"

definition NewDocument :: document where
  "NewDocument = \<lparr>selects = (\<lambda>path. None), Attr = (\<lambda>elem. [])\<rparr>"

definition FindElement :: "string \<Rightarrow> document \<Rightarrow> element option" where
  "FindElement path doc = selects doc path"

text \<open>\<^verbatim>\<open>SelectAttr\<close>: the first attribute with the key, or nil.\<close>

definition SelectAttr :: "string \<Rightarrow> attr list \<Rightarrow> attr option" where
  "SelectAttr key as = find (\<lambda>a. fst a = key) as"

text \<open>\<^verbatim>\<open>RemoveAttr\<close>: removes the first attribute with the key, if there is one.\<close>

fun RemoveAttr :: "string \<Rightarrow> attr list \<Rightarrow> attr list" where
  "RemoveAttr key [] = []"
| "RemoveAttr key (a # as) = (if fst a = key then as else a # RemoveAttr key as)"

text \<open>
  \<^verbatim>\<open>CreateAttr\<close>: when an attribute with the key exists its value is replaced, otherwise
  a new attribute is added at the end.
\<close>

fun CreateAttr :: "string \<Rightarrow> string \<Rightarrow> attr list \<Rightarrow> attr list" where
  "CreateAttr key val [] = [(key, val)]"
| "CreateAttr key val (a # as) =
     (if fst a = key then (key, val) # as else a # CreateAttr key val as)"

text \<open>
  A statement \<^verbatim>\<open>doc.FindElement(path).M(...)\<close> calls the method \<open>M\<close> on what
  \<^verbatim>\<open>FindElement\<close> returned. On nil the method dereferences a nil pointer and the program
  panics: \<open>None\<close>. Otherwise the attribute list of that element is updated in place.
\<close>

definition on_found :: "string \<Rightarrow> (attr list \<Rightarrow> attr list) \<Rightarrow> document \<Rightarrow> document option" where
  "on_found path M doc =
     (case FindElement path doc of
        None \<Rightarrow> None
      | Some elem \<Rightarrow> Some (doc\<lparr>Attr := (Attr doc)(elem := M (Attr doc elem))\<rparr>))"

text \<open>
  Reading and writing files: \<^verbatim>\<open>ReadFromFile\<close> gives the document of a file or an error
  (no such file, not XML), \<^verbatim>\<open>WriteToFile\<close> changes the file system \<open>'fs\<close> and may fail.
  Both belong to etree and the operating system, and are parameters.
\<close>

record 'fs files =
  ReadFromFile :: "string \<Rightarrow> 'fs \<Rightarrow> error + document"
  WriteToFile :: "string \<Rightarrow> document \<Rightarrow> 'fs \<Rightarrow> error option \<times> 'fs"

subsection \<open>The world of a run\<close>

text \<open>
  What a run does to the world outside: the calls it makes on the signer, what it
  prints on standard output and the files it writes, in the order they happen. The
  world holds the state of the signing device, the file system, and the element tree
  that WriteIIC holds in memory in its variable \<^verbatim>\<open>doc\<close>.
\<close>

datatype event =
    Initialize_call
  | SignPKCS1v15_call "byte list"
  | Finalize_call
  | Printf string
  | WriteToFile_call string

record ('dev, 'fs) world =
  dev :: 'dev
  fs :: 'fs
  tree :: document
  events :: "event list"

definition emit :: "event \<Rightarrow> ('dev, 'fs) world \<Rightarrow> ('dev, 'fs) world" where
  "emit e w = w\<lparr>events := events w @ [e]\<rparr>"

section \<open>GenerateIIC\<close>

text \<open>
  Lines 64 to 73: \<^verbatim>\<open>fmt.Sprintf("%v|%v|%v|%v|%v|%v|%v", params[0], ..., params[6])\<close>. The
  operands are strings, which \<^verbatim>\<open>%v\<close> writes as they are; the text between the verbs is
  copied. \<open>params\<close> is the Go array \<^verbatim>\<open>[7]string\<close>: a list of length 7.
\<close>

definition plainIIC :: "string list \<Rightarrow> string" where
  "plainIIC params =
     params ! 0 @ ''|'' @ params ! 1 @ ''|'' @ params ! 2 @ ''|'' @ params ! 3 @ ''|'' @
     params ! 4 @ ''|'' @ params ! 5 @ ''|'' @ params ! 6"

text \<open>
  Lines 64 to 94, the part of GenerateIIC that runs between the successful
  \<^verbatim>\<open>Initialize\<close> and the deferred \<^verbatim>\<open>Finalize\<close>.
\<close>

definition GenerateIIC_body ::
  "('cfg, 'dev) SafeNet \<Rightarrow> 'h Hash \<Rightarrow> 'h Hash \<Rightarrow> string list \<Rightarrow> ('dev, 'fs) world \<Rightarrow>
     (string \<times> string \<times> error option) \<times> ('dev, 'fs) world" where
  "GenerateIIC_body signer SHA256 MD5 params w1 =
     (let w2 = emit (Printf (''Plain IIC: '' @ plainIIC params)) w1;
          (hasher, err) = Write SHA256 (New SHA256) (bytes_of (plainIIC params))
      in case err of
           Some e \<Rightarrow> (([], [], Some e), w2)
         | None \<Rightarrow>
            (let sha256IIC = Sum SHA256 hasher [];
                 (signed, d) = SignPKCS1v15 signer sha256IIC (dev w2);
                 w3 = emit (SignPKCS1v15_call sha256IIC) (w2\<lparr>dev := d\<rparr>)
             in case signed of
                  Inl e \<Rightarrow> (([], [], Some e), w3)
                | Inr IICSignature \<Rightarrow>
                   (let (hasher', err') = Write MD5 (New MD5) IICSignature
                    in case err' of
                         Some e \<Rightarrow> (([], [], Some e), w3)
                       | None \<Rightarrow>
                          (let IIC = Sum MD5 hasher' []
                           in ((Sprintf_x IIC, Sprintf_x IICSignature, err'), w3)))))"

text \<open>
  Lines 56 to 95. When \<^verbatim>\<open>Initialize\<close> fails the function returns at line 60, before the
  \<^verbatim>\<open>defer\<close> statement is reached; otherwise the deferred \<^verbatim>\<open>signer.Finalize()\<close> runs
  when the body returns, whatever it returns.
\<close>

definition GenerateIIC ::
  "('cfg, 'dev) SafeNet \<Rightarrow> 'h Hash \<Rightarrow> 'h Hash \<Rightarrow> 'cfg \<Rightarrow> string list \<Rightarrow> ('dev, 'fs) world \<Rightarrow>
     (string \<times> string \<times> error option) \<times> ('dev, 'fs) world" where
  "GenerateIIC signer SHA256 MD5 SafenetConfig params w =
     (let (err, d) = Initialize signer SafenetConfig (dev w);
          w1 = emit Initialize_call (w\<lparr>dev := d\<rparr>)
      in case err of
           Some e \<Rightarrow> (([], [], Some e), w1)
         | None \<Rightarrow>
            (let (ret, w') = GenerateIIC_body signer SHA256 MD5 params w1
             in (ret, emit Finalize_call (w'\<lparr>dev := Finalize signer (dev w')\<rparr>))))"

section \<open>Field extraction\<close>

text \<open>
  Lines 150 to 156. A Go function of result type \<^verbatim>\<open>(string, error)\<close> returns both
  values; the error is \<open>None\<close> for nil.
\<close>

definition mapAttrib ::
  "string \<Rightarrow> attr list \<Rightarrow> (attr \<Rightarrow> string \<times> error option) \<Rightarrow> string \<times> error option" where
  "mapAttrib attrName elem closure =
     (case SelectAttr attrName elem of
        None \<Rightarrow> ([], Some (Error (''can't find attribute '' @ attrName)))
      | Some attr \<Rightarrow> closure attr)"

text \<open>Lines 141 to 147. The closure gets the element found.\<close>

definition mapElement ::
  "string \<Rightarrow> document \<Rightarrow> (element \<Rightarrow> string \<times> error option) \<Rightarrow> string \<times> error option" where
  "mapElement elemName doc closure =
     (case FindElement elemName doc of
        None \<Rightarrow> ([], Some (Error (''can't find element '' @ elemName)))
      | Some elem \<Rightarrow> closure elem)"

text \<open>Lines 132 to 138.\<close>

definition attributeOfElement :: "string \<Rightarrow> string \<Rightarrow> document \<Rightarrow> string \<times> error option" where
  "attributeOfElement elemName attrName doc =
     mapElement elemName doc (\<lambda>elem.
       mapAttrib attrName (Attr doc elem) (\<lambda>attr. (snd attr, None)))"

text \<open>
  Lines 98 to 129. \<^verbatim>\<open>[7]string{}\<close> is the array of seven empty strings.
\<close>

definition parse :: "document \<Rightarrow> string list \<times> error option" where
  "parse doc =
     (case attributeOfElement ''//Seller'' ''IDNum'' doc of
        (TIN, Some err) \<Rightarrow> ([[], [], [], [], [], [], []], Some err)
      | (TIN, None) \<Rightarrow>
     (case attributeOfElement ''//Invoice'' ''IssueDateTime'' doc of
        (IssueDateTime, Some err) \<Rightarrow> ([[], [], [], [], [], [], []], Some err)
      | (IssueDateTime, None) \<Rightarrow>
     (case attributeOfElement ''//Invoice'' ''InvOrdNum'' doc of
        (InvOrdNum, Some err) \<Rightarrow> ([[], [], [], [], [], [], []], Some err)
      | (InvOrdNum, None) \<Rightarrow>
     (case attributeOfElement ''//Invoice'' ''BusinUnitCode'' doc of
        (BusinUnitCode, Some err) \<Rightarrow> ([[], [], [], [], [], [], []], Some err)
      | (BusinUnitCode, None) \<Rightarrow>
     (case attributeOfElement ''//Invoice'' ''TCRCode'' doc of
        (TCRCode, Some err) \<Rightarrow> ([[], [], [], [], [], [], []], Some err)
      | (TCRCode, None) \<Rightarrow>
     (case attributeOfElement ''//Invoice'' ''SoftCode'' doc of
        (SoftCode, Some err) \<Rightarrow> ([[], [], [], [], [], [], []], Some err)
      | (SoftCode, None) \<Rightarrow>
     (case attributeOfElement ''//Invoice'' ''TotPrice'' doc of
        (TotPrice, Some err) \<Rightarrow> ([[], [], [], [], [], [], []], Some err)
      | (TotPrice, None) \<Rightarrow>
          ([TIN, IssueDateTime, InvOrdNum, BusinUnitCode, TCRCode, SoftCode, TotPrice],
           None))))))))"

section \<open>WriteIIC\<close>

text \<open>
  Lines 39 to 43, the four statements that put the two values into the document. Each
  of them looks the element up again.
\<close>

definition WriteIIC_save :: "string \<Rightarrow> string \<Rightarrow> document \<Rightarrow> document option" where
  "WriteIIC_save IIC IICSignature doc0 = do {
     doc1 \<leftarrow> on_found ''//Invoice'' (RemoveAttr ''IIC'') doc0;
     doc2 \<leftarrow> on_found ''//Invoice'' (CreateAttr ''IIC'' IIC) doc1;
     doc3 \<leftarrow> on_found ''//Invoice'' (RemoveAttr ''IICSignature'') doc2;
     on_found ''//Invoice'' (CreateAttr ''IICSignature'' IICSignature) doc3
   }"

text \<open>
  Lines 19 to 53. The function returns an error or nil, or it panics.
  \<^verbatim>\<open>IndentTabs\<close> and \<^verbatim>\<open>SetTail\<close> (lines 45 and 46) change the white space between
  elements only, which this document does not have.
\<close>

datatype 'a outcome = Returns 'a | Panics

record 'cfg Params =
  SafenetConfig :: 'cfg
  InFile :: string
  OutFile :: string

definition WriteIIC ::
  "'fs files \<Rightarrow> ('cfg, 'dev) SafeNet \<Rightarrow> 'h Hash \<Rightarrow> 'h Hash \<Rightarrow> 'cfg Params \<Rightarrow>
     ('dev, 'fs) world \<Rightarrow> error option outcome \<times> ('dev, 'fs) world" where
  "WriteIIC files signer SHA256 MD5 params w0 =
     (case ReadFromFile files (InFile params) (fs w0) of
        Inl err \<Rightarrow> (Returns (Some err), w0\<lparr>tree := NewDocument\<rparr>)
      | Inr d \<Rightarrow>
         (let w1 = w0\<lparr>tree := d\<rparr> in
          case parse (tree w1) of
            (parsed, Some err) \<Rightarrow> (Returns (Some err), w1)
          | (parsed, None) \<Rightarrow>
             (case GenerateIIC signer SHA256 MD5 (SafenetConfig params) parsed w1 of
                ((IIC, IICSignature, Some err), w2) \<Rightarrow> (Returns (Some err), w2)
              | ((IIC, IICSignature, None), w2) \<Rightarrow>
                 (case WriteIIC_save IIC IICSignature (tree w2) of
                    None \<Rightarrow> (Panics, w2)
                  | Some d' \<Rightarrow>
                     (let w3 = w2\<lparr>tree := d'\<rparr>;
                          (err, fs') = WriteToFile files (OutFile params) (tree w3) (fs w3);
                          w4 = emit (WriteToFile_call (OutFile params)) (w3\<lparr>fs := fs'\<rparr>)
                      in case err of
                           Some e \<Rightarrow> (Returns (Some e), w4)
                         | None \<Rightarrow> (Returns None, w4))))))"

section \<open>The words of the specification\<close>

text \<open>
  The lowercase hexadecimal rendering of a byte sequence: two digits for each byte, the
  high half first, the digits \<open>0\<close> to \<open>9\<close> and \<open>a\<close> to \<open>f\<close>.
\<close>

definition hex_digit :: "nat \<Rightarrow> char" where
  "hex_digit n = (if n < 10 then char_of (48 + n) else char_of (87 + n))"

definition lowercase_hex :: "byte list \<Rightarrow> string" where
  "lowercase_hex bs = concat (map (\<lambda>b. [hex_digit (unat b div 16), hex_digit (unat b mod 16)]) bs)"

text \<open>The hash of a byte sequence: what a fresh hash returns after absorbing it.\<close>

definition digest :: "'h Hash \<Rightarrow> byte list \<Rightarrow> byte list" where
  "digest H b = Sum H (fst (Write H (New H) b)) []"

text \<open>Joining strings with a delimiter between adjacent ones.\<close>

fun join :: "string \<Rightarrow> string list \<Rightarrow> string" where
  "join sep [] = []"
| "join sep [x] = x"
| "join sep (x # y # ys) = x @ sep @ join sep (y # ys)"

text \<open>Swapping the values at two positions.\<close>

definition swap :: "nat \<Rightarrow> nat \<Rightarrow> 'a list \<Rightarrow> 'a list" where
  "swap i j xs = xs[i := xs ! j, j := xs ! i]"

text \<open>The line that GenerateIIC prints.\<close>

definition printed :: "string list \<Rightarrow> event" where
  "printed params = Printf (''Plain IIC: '' @ plainIIC params)"

text \<open>
  The seven fields in their order: the path of the element and the key of the
  attribute that \<^verbatim>\<open>parse\<close> asks for. A field is missing from a document when the path
  selects no element or the element has no attribute with the key.
\<close>

definition field_locators :: "(string \<times> string) list" where
  "field_locators =
     [(''//Seller'', ''IDNum''), (''//Invoice'', ''IssueDateTime''), (''//Invoice'', ''InvOrdNum''),
      (''//Invoice'', ''BusinUnitCode''), (''//Invoice'', ''TCRCode''), (''//Invoice'', ''SoftCode''),
      (''//Invoice'', ''TotPrice'')]"

definition missing :: "document \<Rightarrow> string \<times> string \<Rightarrow> bool" where
  "missing d l =
     (case FindElement (fst l) d of
        None \<Rightarrow> True
      | Some elem \<Rightarrow> SelectAttr (snd l) (Attr d elem) = None)"

text \<open>An error names a node or an attribute when its message contains the name.\<close>

definition names :: "error \<Rightarrow> string \<Rightarrow> bool" where
  "names err name = sublist name (message err)"

text \<open>How many attributes of a list have the key.\<close>

definition count_attr :: "string \<Rightarrow> attr list \<Rightarrow> nat" where
  "count_attr key as = length (filter (\<lambda>a. fst a = key) as)"

section \<open>Fixtures\<close>

text \<open>
  A signer that opens a session, returns one fixed signature for every digest, and
  closes the session; the device state counts the open sessions. A signer whose device
  refuses to sign. A hash of \<open>n\<close> bytes that never fails.
\<close>

definition fixed_signature :: "byte list" where
  "fixed_signature = [0xDE, 0xAD, 0xBE, 0xEF]"

definition stub_signer :: "(unit, nat) SafeNet" where
  "stub_signer =
     \<lparr>Initialize = (\<lambda>cfg d. (None, Suc d)),
      SignPKCS1v15 = (\<lambda>dg d. (Inr fixed_signature, d)),
      Finalize = (\<lambda>d. d - 1)\<rparr>"

definition locked_signer :: "(unit, nat) SafeNet" where
  "locked_signer =
     \<lparr>Initialize = (\<lambda>cfg d. (None, Suc d)),
      SignPKCS1v15 = (\<lambda>dg d. (Inl (Error ''device locked''), d)),
      Finalize = (\<lambda>d. d - 1)\<rparr>"

definition stub_hash :: "nat \<Rightarrow> byte list Hash" where
  "stub_hash n =
     \<lparr>New = [],
      Write = (\<lambda>h b. (h @ b, None)),
      Sum = (\<lambda>h b. b @ take n (h @ replicate n 0))\<rparr>"

definition letters :: "string list" where
  "letters = [''A'', ''B'', ''C'', ''D'', ''E'', ''F'', ''G'']"

definition world0 :: "(nat, string \<rightharpoonup> document) world" where
  "world0 = \<lparr>dev = 0, fs = Map.empty, tree = NewDocument, events = []\<rparr>"

text \<open>
  An invoice with a seller and the six attributes, which carries an \<^verbatim>\<open>IIC\<close> of an
  earlier run; the same without the \<^verbatim>\<open>Seller\<close> element; the same without the attribute
  \<^verbatim>\<open>TCRCode\<close>. A file system that maps paths to documents.
\<close>

definition invoice_attrs :: "attr list" where
  "invoice_attrs =
     [(''IssueDateTime'', ''B''), (''InvOrdNum'', ''C''), (''IIC'', ''old''),
      (''BusinUnitCode'', ''D''), (''TCRCode'', ''E''), (''SoftCode'', ''F''),
      (''TotPrice'', ''G'')]"

definition invoice_doc :: document where
  "invoice_doc =
     \<lparr>selects = [''//Seller'' \<mapsto> 2, ''//Invoice'' \<mapsto> 3],
      Attr = (\<lambda>elem. if elem = 2 then [(''IDNum'', ''A'')]
                     else if elem = 3 then invoice_attrs else [])\<rparr>"

definition doc_without_Seller :: document where
  "doc_without_Seller = invoice_doc\<lparr>selects := [''//Invoice'' \<mapsto> 3]\<rparr>"

definition doc_without_TCRCode :: document where
  "doc_without_TCRCode =
     invoice_doc\<lparr>Attr := (Attr invoice_doc)(3 := RemoveAttr ''TCRCode'' invoice_attrs)\<rparr>"

definition stub_files :: "(string \<rightharpoonup> document) files" where
  "stub_files =
     \<lparr>ReadFromFile = (\<lambda>path files.
        case files path of None \<Rightarrow> Inl (Error ''no such file'') | Some d \<Rightarrow> Inr d),
      WriteToFile = (\<lambda>path d files. (None, files(path \<mapsto> d)))\<rparr>"

definition stub_params :: "unit Params" where
  "stub_params = \<lparr>SafenetConfig = (), InFile = ''in.xml'', OutFile = ''out.xml''\<rparr>"

definition world_with :: "document \<Rightarrow> (nat, string \<rightharpoonup> document) world" where
  "world_with d = world0\<lparr>fs := [''in.xml'' \<mapsto> d]\<rparr>"

section \<open>Hexadecimal\<close>

lemma ldigits_table:
  "list_all (\<lambda>n. ldigits ! n = hex_digit n \<and> hex_digit n \<in> set ''0123456789abcdef'') [0..<16]"
  by code_simp

lemma ldigits_nth: "n < 16 \<Longrightarrow> ldigits ! n = hex_digit n"
  using ldigits_table by (simp add: list_all_iff)

lemma hex_digit_lower: "n < 16 \<Longrightarrow> hex_digit n \<in> set ''0123456789abcdef''"
  using ldigits_table by (simp add: list_all_iff)

lemma high_half: "unat (drop_bit 4 (c::byte)) = unat c div 16"
  by (simp add: drop_bit_eq_div unat_div)

lemma low_half: "unat ((c::byte) AND 0xF) = unat c mod 16"
proof -
  have "(0xF::byte) = mask 4" by (simp add: mask_eq_exp_minus_1)
  then have "c AND 0xF = take_bit 4 c" by (simp add: take_bit_eq_mask)
  then show ?thesis by (simp add: take_bit_eq_mod unat_mod)
qed

lemma high_half_less: "unat (c::byte) div 16 < 16"
  using unsigned_less [of c, where 'a = nat] by simp

lemma byte_digits:
  "[ldigits ! unat (drop_bit 4 (c::byte)), ldigits ! unat (c AND 0xF)] =
   [hex_digit (unat c div 16), hex_digit (unat c mod 16)]"
  by (simp add: high_half low_half ldigits_nth high_half_less)

lemma Sprintf_x_lowercase_hex: "Sprintf_x b = lowercase_hex b"
  unfolding Sprintf_x_def lowercase_hex_def byte_digits ..

lemma length_lowercase_hex: "length (lowercase_hex b) = 2 * length b"
  by (induction b) (simp_all add: lowercase_hex_def)

lemma byte_digits_lower:
  "hex_digit (unat (c::byte) div 16) \<in> set ''0123456789abcdef'' \<and>
   hex_digit (unat c mod 16) \<in> set ''0123456789abcdef''"
  using hex_digit_lower [of "unat c div 16"] hex_digit_lower [of "unat c mod 16"]
    high_half_less [of c]
  by simp

lemma set_lowercase_hex: "set (lowercase_hex b) \<subseteq> set ''0123456789abcdef''"
proof (induction b)
  case Nil
  then show ?case by (simp add: lowercase_hex_def)
next
  case (Cons c b)
  have "lowercase_hex (c # b) =
      [hex_digit (unat c div 16), hex_digit (unat c mod 16)] @ lowercase_hex b"
    by (simp add: lowercase_hex_def)
  then show ?case using Cons byte_digits_lower [of c] by simp
qed

section \<open>The paths through GenerateIIC\<close>

lemma emit_simps [simp]:
  "dev (emit e w) = dev w" "fs (emit e w) = fs w" "tree (emit e w) = tree w"
  "events (emit e w) = events w @ [e]"
  by (simp_all add: emit_def)

lemma body_cases:
  fixes signer :: "('cfg, 'dev) SafeNet" and w1 :: "('dev, 'fs) world"
    and SHA256 MD5 :: "'h Hash" and params :: "string list"
  defines "dg \<equiv> digest SHA256 (bytes_of (plainIIC params))"
  defines "w2 \<equiv> emit (printed params) w1"
  defines "w3 \<equiv> emit (SignPKCS1v15_call dg) (w2\<lparr>dev := snd (SignPKCS1v15 signer dg (dev w1))\<rparr>)"
  shows "GenerateIIC_body signer SHA256 MD5 params w1 =
     (case snd (Write SHA256 (New SHA256) (bytes_of (plainIIC params))) of
        Some e \<Rightarrow> (([], [], Some e), w2)
      | None \<Rightarrow>
         (case fst (SignPKCS1v15 signer dg (dev w1)) of
            Inl e \<Rightarrow> (([], [], Some e), w3)
          | Inr sig \<Rightarrow>
             (case snd (Write MD5 (New MD5) sig) of
                Some e \<Rightarrow> (([], [], Some e), w3)
              | None \<Rightarrow> ((Sprintf_x (digest MD5 sig), Sprintf_x sig, None), w3))))"
  unfolding GenerateIIC_body_def dg_def w2_def w3_def digest_def printed_def
  by (simp add: Let_def split: prod.splits option.splits sum.splits)

lemma GenerateIIC_unfold:
  fixes signer :: "('cfg, 'dev) SafeNet" and w :: "('dev, 'fs) world"
  shows "GenerateIIC signer SHA256 MD5 cfg params w =
     (case fst (Initialize signer cfg (dev w)) of
        Some e \<Rightarrow> (([], [], Some e), emit Initialize_call (w\<lparr>dev := snd (Initialize signer cfg (dev w))\<rparr>))
      | None \<Rightarrow>
         (fst (GenerateIIC_body signer SHA256 MD5 params
                 (emit Initialize_call (w\<lparr>dev := snd (Initialize signer cfg (dev w))\<rparr>))),
          emit Finalize_call
            ((snd (GenerateIIC_body signer SHA256 MD5 params
                 (emit Initialize_call (w\<lparr>dev := snd (Initialize signer cfg (dev w))\<rparr>))))
             \<lparr>dev := Finalize signer (dev (snd (GenerateIIC_body signer SHA256 MD5 params
                 (emit Initialize_call (w\<lparr>dev := snd (Initialize signer cfg (dev w))\<rparr>)))))\<rparr>)))"
  unfolding GenerateIIC_def
  by (simp add: Let_def split: prod.splits option.splits)

lemma body_result:
  fixes signer :: "('cfg, 'dev) SafeNet" and w1 :: "('dev, 'fs) world"
  shows "fst (GenerateIIC_body signer SHA256 MD5 params w1) =
     (case snd (Write SHA256 (New SHA256) (bytes_of (plainIIC params))) of
        Some e \<Rightarrow> ([], [], Some e)
      | None \<Rightarrow>
         (case fst (SignPKCS1v15 signer (digest SHA256 (bytes_of (plainIIC params))) (dev w1)) of
            Inl e \<Rightarrow> ([], [], Some e)
          | Inr sig \<Rightarrow>
             (case snd (Write MD5 (New MD5) sig) of
                Some e \<Rightarrow> ([], [], Some e)
              | None \<Rightarrow> (Sprintf_x (digest MD5 sig), Sprintf_x sig, None))))"
  unfolding body_cases by (simp split: option.splits sum.splits)

lemma body_events:
  fixes signer :: "('cfg, 'dev) SafeNet" and w1 :: "('dev, 'fs) world"
  shows "events (snd (GenerateIIC_body signer SHA256 MD5 params w1)) =
           events w1 @ [printed params] @
           (if snd (Write SHA256 (New SHA256) (bytes_of (plainIIC params))) = None
            then [SignPKCS1v15_call (digest SHA256 (bytes_of (plainIIC params)))] else [])"
  unfolding body_cases by (simp split: option.splits sum.splits)

lemma body_frame:
  fixes signer :: "('cfg, 'dev) SafeNet" and w1 :: "('dev, 'fs) world"
  shows "fs (snd (GenerateIIC_body signer SHA256 MD5 params w1)) = fs w1
       \<and> tree (snd (GenerateIIC_body signer SHA256 MD5 params w1)) = tree w1"
  unfolding body_cases by (simp split: option.splits sum.splits)

lemma GenerateIIC_result:
  fixes signer :: "('cfg, 'dev) SafeNet" and w :: "('dev, 'fs) world"
  shows "fst (GenerateIIC signer SHA256 MD5 cfg params w) =
     (case fst (Initialize signer cfg (dev w)) of
        Some e \<Rightarrow> ([], [], Some e)
      | None \<Rightarrow>
     (case snd (Write SHA256 (New SHA256) (bytes_of (plainIIC params))) of
        Some e \<Rightarrow> ([], [], Some e)
      | None \<Rightarrow>
         (case fst (SignPKCS1v15 signer (digest SHA256 (bytes_of (plainIIC params)))
                      (snd (Initialize signer cfg (dev w)))) of
            Inl e \<Rightarrow> ([], [], Some e)
          | Inr sig \<Rightarrow>
             (case snd (Write MD5 (New MD5) sig) of
                Some e \<Rightarrow> ([], [], Some e)
              | None \<Rightarrow> (Sprintf_x (digest MD5 sig), Sprintf_x sig, None)))))"
  unfolding GenerateIIC_unfold by (simp add: body_result split: option.splits)

lemma GenerateIIC_frame:
  fixes signer :: "('cfg, 'dev) SafeNet" and w :: "('dev, 'fs) world"
  shows "fs (snd (GenerateIIC signer SHA256 MD5 cfg params w)) = fs w
       \<and> tree (snd (GenerateIIC signer SHA256 MD5 cfg params w)) = tree w"
  unfolding GenerateIIC_unfold by (simp add: body_frame split: option.splits)

lemma GenerateIIC_events:
  fixes signer :: "('cfg, 'dev) SafeNet" and w :: "('dev, 'fs) world"
  shows "events (snd (GenerateIIC signer SHA256 MD5 cfg params w)) =
           events w @ [Initialize_call] @
           (if fst (Initialize signer cfg (dev w)) = None
            then [printed params] @
                 (if snd (Write SHA256 (New SHA256) (bytes_of (plainIIC params))) = None
                  then [SignPKCS1v15_call (digest SHA256 (bytes_of (plainIIC params)))] else []) @
                 [Finalize_call]
            else [])"
  unfolding GenerateIIC_unfold by (simp add: body_events split: option.splits)

lemma GenerateIIC_nil_error:
  fixes signer :: "('cfg, 'dev) SafeNet" and w :: "('dev, 'fs) world"
  assumes "fst (GenerateIIC signer SHA256 MD5 cfg params w) = (IIC, IICSignature, None)"
  shows "\<exists>sig. fst (SignPKCS1v15 signer (digest SHA256 (bytes_of (plainIIC params)))
                  (snd (Initialize signer cfg (dev w)))) = Inr sig
             \<and> IIC = Sprintf_x (digest MD5 sig) \<and> IICSignature = Sprintf_x sig"
  using assms unfolding GenerateIIC_result
  by (auto split: option.splits sum.splits)

section \<open>The fixtures evaluated\<close>

lemma stub_simps:
  "Initialize stub_signer cfg d = (None, Suc d)"
  "SignPKCS1v15 stub_signer dg d = (Inr fixed_signature, d)"
  "Finalize stub_signer d = d - 1"
  "Initialize locked_signer cfg d = (None, Suc d)"
  "SignPKCS1v15 locked_signer dg d = (Inl (Error ''device locked''), d)"
  "Finalize locked_signer d = d - 1"
  "New (stub_hash n) = []"
  "Write (stub_hash n) h b = (h @ b, None)"
  "Sum (stub_hash n) h b = b @ take n (h @ replicate n 0)"
  by (simp_all add: stub_signer_def locked_signer_def stub_hash_def)

lemma stub_digest_length: "length (digest (stub_hash n) b) = n"
  by (simp add: digest_def stub_simps)

section \<open>The generator\<close>

text \<open>
  Claim C1. When the session is opened, both hashes absorb their input and the signer
  returns a signature over the SHA-256 digest of the PlainText, GenerateIIC returns no
  error; its first string is the lowercase hexadecimal rendering of the MD5 hash of that
  signature, 32 characters out of \<open>0\<close> to \<open>9\<close> and \<open>a\<close> to \<open>f\<close> for a hash of 16 bytes, and
  its second string is the lowercase hexadecimal rendering of the signature, of twice
  the length of the signature.
\<close>

theorem GenerateIIC_success:
  fixes signer :: "('cfg, 'dev) SafeNet" and w :: "('dev, 'fs) world"
  assumes "fst (Initialize signer cfg (dev w)) = None"
      and "snd (Write SHA256 (New SHA256) (bytes_of (plainIIC params))) = None"
      and "fst (SignPKCS1v15 signer (digest SHA256 (bytes_of (plainIIC params)))
                  (snd (Initialize signer cfg (dev w)))) = Inr sig"
      and "snd (Write MD5 (New MD5) sig) = None"
      and "length (digest MD5 sig) = 16"
  shows "fst (GenerateIIC signer SHA256 MD5 cfg params w) =
           (lowercase_hex (digest MD5 sig), lowercase_hex sig, None)
       \<and> length (lowercase_hex (digest MD5 sig)) = 32
       \<and> set (lowercase_hex (digest MD5 sig)) \<subseteq> set ''0123456789abcdef''
       \<and> set (lowercase_hex sig) \<subseteq> set ''0123456789abcdef''
       \<and> length (lowercase_hex sig) = 2 * length sig"
proof -
  have "fst (GenerateIIC signer SHA256 MD5 cfg params w) =
           (lowercase_hex (digest MD5 sig), lowercase_hex sig, None)"
    unfolding GenerateIIC_result using assms(1-4) by (simp add: Sprintf_x_lowercase_hex)
  moreover have "length (lowercase_hex (digest MD5 sig)) = 32"
    using assms(5) by (simp add: length_lowercase_hex)
  ultimately show ?thesis
    using set_lowercase_hex length_lowercase_hex by blast
qed

theorem GenerateIIC_success_witness:
  "fst (Initialize stub_signer () (dev world0)) = None
   \<and> snd (Write (stub_hash 32) (New (stub_hash 32)) (bytes_of (plainIIC letters))) = None
   \<and> fst (SignPKCS1v15 stub_signer (digest (stub_hash 32) (bytes_of (plainIIC letters)))
            (snd (Initialize stub_signer () (dev world0)))) = Inr fixed_signature
   \<and> snd (Write (stub_hash 16) (New (stub_hash 16)) fixed_signature) = None
   \<and> length (digest (stub_hash 16) fixed_signature) = 16
   \<and> fst (GenerateIIC stub_signer (stub_hash 32) (stub_hash 16) () letters world0) =
       (''deadbeef000000000000000000000000'', ''deadbeef'', None)
   \<and> lowercase_hex (digest (stub_hash 16) fixed_signature) = ''deadbeef000000000000000000000000''
   \<and> lowercase_hex fixed_signature = ''deadbeef''
   \<and> length ''deadbeef000000000000000000000000'' = 32
   \<and> length ''deadbeef'' = 2 * length fixed_signature"
proof -
  have h: "lowercase_hex (digest (stub_hash 16) fixed_signature) = ''deadbeef000000000000000000000000''"
    "lowercase_hex fixed_signature = ''deadbeef''"
    by code_simp+
  show ?thesis
    using GenerateIIC_success [of stub_signer "()" world0 "stub_hash 32" letters fixed_signature "stub_hash 16"]
    by (simp add: stub_simps stub_digest_length h)
qed


text \<open>
  Claim C2. The PlainText of seven fields is the fields joined in their order with one
  \<open>|\<close> between adjacent fields, the fields as they are; for the fields \<open>A\<close> to \<open>G\<close> it is
  \<open>A|B|C|D|E|F|G\<close>.
\<close>

theorem plainIIC_join:
  "plainIIC [TIN, IssueDateTime, InvOrdNum, BusinUnitCode, TCRCode, SoftCode, TotPrice] =
     join ''|'' [TIN, IssueDateTime, InvOrdNum, BusinUnitCode, TCRCode, SoftCode, TotPrice]
   \<and> plainIIC [''A'', ''B'', ''C'', ''D'', ''E'', ''F'', ''G''] = ''A|B|C|D|E|F|G''"
  by (simp add: plainIIC_def)

text \<open>
  Claim C8. When the session was opened, the calls that GenerateIIC makes end with
  \<^verbatim>\<open>Finalize\<close>, which is called once, on every path: whether hashing or signing fails or
  the call succeeds.
\<close>

theorem Finalize_exactly_once:
  fixes signer :: "('cfg, 'dev) SafeNet" and w :: "('dev, 'fs) world"
  assumes "fst (Initialize signer cfg (dev w)) = None"
  shows "\<exists>evs d. events (snd (GenerateIIC signer SHA256 MD5 cfg params w)) =
                   events w @ evs @ [Finalize_call]
               \<and> Finalize_call \<notin> set evs
               \<and> dev (snd (GenerateIIC signer SHA256 MD5 cfg params w)) = Finalize signer d"
proof -
  let ?evs = "[Initialize_call, printed params] @
     (if snd (Write SHA256 (New SHA256) (bytes_of (plainIIC params))) = None
      then [SignPKCS1v15_call (digest SHA256 (bytes_of (plainIIC params)))] else [])"
  have "events (snd (GenerateIIC signer SHA256 MD5 cfg params w)) = events w @ ?evs @ [Finalize_call]"
    using assms by (simp add: GenerateIIC_events)
  moreover have "Finalize_call \<notin> set ?evs"
    by (simp add: printed_def)
  moreover have "\<exists>d. dev (snd (GenerateIIC signer SHA256 MD5 cfg params w)) = Finalize signer d"
    unfolding GenerateIIC_unfold using assms by auto
  ultimately show ?thesis by blast
qed

theorem Finalize_exactly_once_witness:
  "fst (Initialize locked_signer () (dev world0)) = None
   \<and> events (snd (GenerateIIC locked_signer (stub_hash 32) (stub_hash 16) () letters world0)) =
       events world0 @
       [Initialize_call, printed letters,
        SignPKCS1v15_call (digest (stub_hash 32) (bytes_of (plainIIC letters)))] @ [Finalize_call]
   \<and> (\<exists>evs d. events (snd (GenerateIIC locked_signer (stub_hash 32) (stub_hash 16) () letters world0)) =
                   events world0 @ evs @ [Finalize_call]
               \<and> Finalize_call \<notin> set evs
               \<and> dev (snd (GenerateIIC locked_signer (stub_hash 32) (stub_hash 16) () letters world0)) =
                   Finalize locked_signer d)"
  using Finalize_exactly_once [of locked_signer "()" world0 "stub_hash 32" "stub_hash 16" letters]
  by (simp add: stub_simps GenerateIIC_events)

text \<open>
  Claim C10. When the session was opened, GenerateIIC prints the PlainText right after
  \<^verbatim>\<open>Initialize\<close>, before any signing, and prints nothing else, for every signer,
  configuration and hash, also when hashing or signing fails afterwards. The text
  printed depends on the fields only.
\<close>

theorem PlainText_always_printed:
  fixes signer :: "('cfg, 'dev) SafeNet" and w :: "('dev, 'fs) world"
  assumes "fst (Initialize signer cfg (dev w)) = None"
  shows "\<exists>evs. events (snd (GenerateIIC signer SHA256 MD5 cfg params w)) =
                 events w @ [Initialize_call, Printf (''Plain IIC: '' @ plainIIC params)] @ evs
             \<and> (\<forall>s. Printf s \<notin> set evs)"
  using assms by (simp add: GenerateIIC_events printed_def)

theorem PlainText_always_printed_witness:
  "fst (Initialize locked_signer () (dev world0)) = None
   \<and> fst (GenerateIIC locked_signer (stub_hash 32) (stub_hash 16) () letters world0) =
       ([], [], Some (Error ''device locked''))
   \<and> (\<exists>evs. events (snd (GenerateIIC locked_signer (stub_hash 32) (stub_hash 16) () letters world0)) =
                 events world0 @ [Initialize_call, Printf ''Plain IIC: A|B|C|D|E|F|G''] @ evs
             \<and> (\<forall>s. Printf s \<notin> set evs))"
  using PlainText_always_printed [of locked_signer "()" world0 "stub_hash 32" "stub_hash 16" letters]
  by (simp add: stub_simps GenerateIIC_result plainIIC_def letters_def)

text \<open>
  Claim C9. With a signer that returns, whenever it signs, the signature \<open>f dg\<close> fixed by
  the digest \<open>dg\<close>, two runs of GenerateIIC on the same fields that return a pair of
  values return the same pair, whatever the state of the device at the start of each
  run. (A run that fails returns an error and no values.)
\<close>

theorem GenerateIIC_deterministic:
  fixes signer :: "('cfg, 'dev) SafeNet" and w1 w2 :: "('dev, 'fs) world"
  assumes fixed: "\<And>dg d sig. fst (SignPKCS1v15 signer dg d) = Inr sig \<Longrightarrow> sig = f dg"
      and run1: "fst (GenerateIIC signer SHA256 MD5 cfg params w1) = (IIC1, IICSignature1, None)"
      and run2: "fst (GenerateIIC signer SHA256 MD5 cfg params w2) = (IIC2, IICSignature2, None)"
  shows "(IIC1, IICSignature1) = (IIC2, IICSignature2)"
proof -
  from GenerateIIC_nil_error [OF run1] obtain s1 where
    s1: "fst (SignPKCS1v15 signer (digest SHA256 (bytes_of (plainIIC params)))
                  (snd (Initialize signer cfg (dev w1)))) = Inr s1"
      "IIC1 = Sprintf_x (digest MD5 s1)" "IICSignature1 = Sprintf_x s1" by blast
  from GenerateIIC_nil_error [OF run2] obtain s2 where
    s2: "fst (SignPKCS1v15 signer (digest SHA256 (bytes_of (plainIIC params)))
                  (snd (Initialize signer cfg (dev w2)))) = Inr s2"
      "IIC2 = Sprintf_x (digest MD5 s2)" "IICSignature2 = Sprintf_x s2" by blast
  have "s1 = s2" using fixed [OF s1(1)] fixed [OF s2(1)] by simp
  with s1 s2 show ?thesis by simp
qed

theorem GenerateIIC_deterministic_witness:
  "fst (SignPKCS1v15 stub_signer (digest (stub_hash 32) (bytes_of (plainIIC letters))) 1) =
       Inr fixed_signature
   \<and> fst (GenerateIIC stub_signer (stub_hash 32) (stub_hash 16) () letters world0) =
       (''deadbeef000000000000000000000000'', ''deadbeef'', None)
   \<and> fst (GenerateIIC stub_signer (stub_hash 32) (stub_hash 16) () letters (world0\<lparr>dev := 5\<rparr>)) =
       (''deadbeef000000000000000000000000'', ''deadbeef'', None)
   \<and> (''deadbeef000000000000000000000000'', ''deadbeef'') =
      (''deadbeef000000000000000000000000'', ''deadbeef'')"
proof -
  have h: "Sprintf_x (digest (stub_hash 16) fixed_signature) = ''deadbeef000000000000000000000000''"
    "Sprintf_x fixed_signature = ''deadbeef''"
    unfolding Sprintf_x_lowercase_hex by code_simp+
  have fixed: "\<And>dg d sig. fst (SignPKCS1v15 stub_signer dg d) = Inr sig \<Longrightarrow> sig = fixed_signature"
    by (simp add: stub_simps)
  have r1: "fst (GenerateIIC stub_signer (stub_hash 32) (stub_hash 16) () letters world0) =
       (''deadbeef000000000000000000000000'', ''deadbeef'', None)"
    by (simp add: GenerateIIC_result stub_simps h)
  have r2: "fst (GenerateIIC stub_signer (stub_hash 32) (stub_hash 16) () letters (world0\<lparr>dev := 5\<rparr>)) =
       (''deadbeef000000000000000000000000'', ''deadbeef'', None)"
    by (simp add: GenerateIIC_result stub_simps h)
  from GenerateIIC_deterministic [of stub_signer "\<lambda>dg. fixed_signature", OF fixed r1 r2] r1 r2
  show ?thesis by (simp add: stub_simps)
qed

section \<open>The order of the fields\<close>

lemma sep_join: "xs \<noteq> [] \<Longrightarrow> sep @ join sep xs = concat (map (\<lambda>x. sep @ x) xs)"
  by (induction sep xs rule: join.induct) simp_all

lemma first_sep:
  "c \<notin> set a \<Longrightarrow> c \<notin> set b \<Longrightarrow> a @ c # r1 = b @ c # r2 \<Longrightarrow> a = b"
proof (induction a arbitrary: b)
  case Nil
  then show ?case by (cases b) auto
next
  case (Cons x a)
  then show ?case by (cases b) auto
qed

lemma seps_start:
  "\<exists>r. concat (map (\<lambda>x. [c] @ x) mid) @ [c] @ t = c # r"
  by (cases mid) simp_all

lemma split_two:
  assumes "i < j" "j < length xs"
  shows "\<exists>pre mid post. xs = pre @ xs ! i # mid @ xs ! j # post \<and> length pre = i
    \<and> length (pre @ xs ! i # mid) = j"
proof -
  define ys where "ys = drop (Suc i) xs"
  define k where "k = j - Suc i"
  have k: "k < length ys" "Suc i + k = j" using assms by (simp_all add: ys_def k_def)
  have 1: "xs = take i xs @ xs ! i # ys"
    using assms unfolding ys_def by (simp add: id_take_nth_drop)
  have 2: "ys = take k ys @ ys ! k # drop (Suc k) ys"
    using k(1) by (rule id_take_nth_drop)
  have 3: "ys ! k = xs ! j"
    using k assms unfolding ys_def by simp
  have "xs = take i xs @ xs ! i # take k ys @ xs ! j # drop (Suc k) ys"
    using 1 2 3 by simp
  moreover have "length (take i xs) = i" using assms by simp
  moreover have "length (take i xs @ xs ! i # take k ys) = j"
    using assms k by simp
  ultimately show ?thesis by blast
qed


lemma swap_split:
  assumes "length pre = i" "length (pre @ a # mid) = j"
  shows "swap i j (pre @ a # mid @ b # post) = pre @ b # mid @ a # post"
proof -
  have i: "(pre @ a # mid @ b # post) ! i = a"
    using assms(1) by (simp add: nth_append)
  have "(pre @ a # mid @ b # post) = (pre @ a # mid) @ b # post" by simp
  then have j: "(pre @ a # mid @ b # post) ! j = b"
    using assms(2) by (metis nth_append_length)
  have "(pre @ a # mid @ b # post)[i := b] = pre @ b # mid @ b # post"
    using assms(1) by (simp add: list_update_append)
  moreover have "((pre @ b # mid) @ b # post)[j := a] = (pre @ b # mid) @ a # post"
  proof -
    have "length (pre @ b # mid) = j" using assms(2) by simp
    then show ?thesis using list_update_length [of "pre @ b # mid" b post a] by simp
  qed
  ultimately show ?thesis
    unfolding swap_def i j by simp
qed


lemma join_split:
  "[c] @ join [c] (pre @ a # mid @ b # post) =
     concat (map (\<lambda>x. [c] @ x) pre) @ [c] @ a @
       (concat (map (\<lambda>x. [c] @ x) mid) @ [c] @ b @ concat (map (\<lambda>x. [c] @ x) post))"
  using sep_join [of "pre @ a # mid @ b # post" "[c]"] by simp

lemma join_swap_split:
  assumes "a \<noteq> b" "c \<notin> set a" "c \<notin> set b"
  shows "join [c] (pre @ b # mid @ a # post) \<noteq> join [c] (pre @ a # mid @ b # post)"
proof
  assume "join [c] (pre @ b # mid @ a # post) = join [c] (pre @ a # mid @ b # post)"
  then have "[c] @ join [c] (pre @ b # mid @ a # post) = [c] @ join [c] (pre @ a # mid @ b # post)"
    by (rule arg_cong)
  then have eq: "b @ (concat (map (\<lambda>x. [c] @ x) mid) @ [c] @ a @ concat (map (\<lambda>x. [c] @ x) post)) =
             a @ (concat (map (\<lambda>x. [c] @ x) mid) @ [c] @ b @ concat (map (\<lambda>x. [c] @ x) post))"
    unfolding join_split by (simp only: same_append_eq)
  obtain r1 where r1: "concat (map (\<lambda>x. [c] @ x) mid) @ [c] @ a @ concat (map (\<lambda>x. [c] @ x) post) = c # r1"
    using seps_start [of c mid "a @ concat (map (\<lambda>x. [c] @ x) post)"] by auto
  obtain r2 where r2: "concat (map (\<lambda>x. [c] @ x) mid) @ [c] @ b @ concat (map (\<lambda>x. [c] @ x) post) = c # r2"
    using seps_start [of c mid "b @ concat (map (\<lambda>x. [c] @ x) post)"] by auto
  have "b @ c # r1 = a @ c # r2" using eq unfolding r1 r2 .
  then have "b = a" using first_sep [of c b a r1 r2] assms(2,3) by simp
  then show False using assms(1) by simp
qed


lemma join_swap_lt:
  assumes "i < j" "j < length xs" "xs ! i \<noteq> xs ! j" "c \<notin> set (xs ! i)" "c \<notin> set (xs ! j)"
  shows "join [c] (swap i j xs) \<noteq> join [c] xs"
proof -
  obtain pre mid post where xs: "xs = pre @ xs ! i # mid @ xs ! j # post"
    and li: "length pre = i" and lj: "length (pre @ xs ! i # mid) = j"
    using split_two [OF assms(1,2)] by blast
  have "swap i j (pre @ xs ! i # mid @ xs ! j # post) = pre @ xs ! j # mid @ xs ! i # post"
    using li lj by (rule swap_split)
  then have "swap i j xs = pre @ xs ! j # mid @ xs ! i # post"
    using xs by simp
  moreover have "join [c] (pre @ xs ! j # mid @ xs ! i # post) \<noteq>
                 join [c] (pre @ xs ! i # mid @ xs ! j # post)"
    using assms(3,4,5) by (rule join_swap_split)
  ultimately show ?thesis using xs by simp
qed

lemma swap_commute: "swap i j xs = swap j i xs"
  by (cases "i = j") (simp_all add: swap_def list_update_swap)

lemma join_swap:
  assumes "i < length xs" "j < length xs" "xs ! i \<noteq> xs ! j" "c \<notin> set (xs ! i)" "c \<notin> set (xs ! j)"
  shows "join [c] (swap i j xs) \<noteq> join [c] xs"
proof -
  from assms(3) have "i \<noteq> j" by auto
  then consider "i < j" | "j < i" by linarith
  then show ?thesis
  proof cases
    case 1
    then show ?thesis using assms(2,3,4,5) by (rule join_swap_lt)
  next
    case 2
    then have "join [c] (swap j i xs) \<noteq> join [c] xs"
      using assms(1) assms(3) [symmetric] assms(5) assms(4) by (rule join_swap_lt)
    then show ?thesis by (subst swap_commute)
  qed
qed

lemma length7:
  assumes "length (p :: 'a list) = 7"
  obtains a b c d e f g where "p = [a, b, c, d, e, f, g]"
  using assms by (auto simp: eval_nat_numeral length_Suc_conv)

lemma plainIIC_eq_join: "length p = 7 \<Longrightarrow> plainIIC p = join ''|'' p"
  by (erule length7) (simp add: plainIIC_def)

lemma length_swap: "length (swap i j xs) = length xs"
  by (simp add: swap_def)

text \<open>
  Claim C4, as amended. Swapping the values at two positions of the seven fields
  changes the PlainText when the two values differ and neither contains the delimiter
  \<open>|\<close>. (The claim as stated asks for every swap of two positions to change it.)
\<close>

theorem swap_changes_plainIIC:
  assumes "length params = 7" and "i < 7" and "j < 7"
      and "params ! i \<noteq> params ! j"
      and "CHR ''|'' \<notin> set (params ! i)" and "CHR ''|'' \<notin> set (params ! j)"
  shows "plainIIC (swap i j params) \<noteq> plainIIC params"
proof -
  have "join ''|'' (swap i j params) \<noteq> join ''|'' params"
    using assms by (intro join_swap) simp_all
  then show ?thesis
    using assms(1) by (simp add: plainIIC_eq_join length_swap)
qed

text \<open>
  Two swaps that leave the PlainText as it was: of two equal values, and of the two
  different values \<open>a|a\<close> and \<open>a\<close>, since the fields are joined without escaping the
  delimiter.
\<close>

theorem swap_counterexample:
  "plainIIC (swap 0 1 [''A'', ''A'', ''C'', ''D'', ''E'', ''F'', ''G'']) =
       plainIIC [''A'', ''A'', ''C'', ''D'', ''E'', ''F'', ''G'']
   \<and> ''a|a'' \<noteq> ''a''
   \<and> plainIIC (swap 0 1 [''a|a'', ''a'', ''C'', ''D'', ''E'', ''F'', ''G'']) =
       plainIIC [''a|a'', ''a'', ''C'', ''D'', ''E'', ''F'', ''G'']"
  by (simp add: plainIIC_def swap_def)

theorem swap_changes_plainIIC_witness:
  "length letters = 7 \<and> (2::nat) < 7 \<and> (5::nat) < 7
   \<and> letters ! 2 \<noteq> letters ! 5
   \<and> CHR ''|'' \<notin> set (letters ! 2)
   \<and> CHR ''|'' \<notin> set (letters ! 5)
   \<and> plainIIC (swap 2 5 letters) \<noteq> plainIIC letters"
  using swap_changes_plainIIC [of letters 2 5]
  by (simp add: letters_def)

section \<open>Field extraction and WriteIIC\<close>

lemma attributeOfElement_cases:
  "attributeOfElement path key d =
     (case FindElement path d of
        None \<Rightarrow> ([], Some (Error (''can't find element '' @ path)))
      | Some elem \<Rightarrow>
         (case SelectAttr key (Attr d elem) of
            None \<Rightarrow> ([], Some (Error (''can't find attribute '' @ key)))
          | Some a \<Rightarrow> (snd a, None)))"
  by (simp add: attributeOfElement_def mapElement_def mapAttrib_def)

lemma attributeOfElement_missing:
  "missing d (path, key) \<Longrightarrow>
     attributeOfElement path key d =
       ([], Some (Error (if FindElement path d = None then ''can't find element '' @ path
                         else ''can't find attribute '' @ key)))"
  by (auto simp: attributeOfElement_cases missing_def split: option.splits)

lemma attributeOfElement_present:
  "\<not> missing d (path, key) \<Longrightarrow> snd (attributeOfElement path key d) = None"
  by (auto simp: attributeOfElement_cases missing_def split: option.splits)

lemma attributeOfElement_error_iff:
  "snd (attributeOfElement path key d) \<noteq> None \<longleftrightarrow> missing d (path, key)"
  by (auto simp: attributeOfElement_cases missing_def split: option.splits)

lemma snd_attributeOfElement:
  "snd (attributeOfElement path key d) =
     (if missing d (path, key)
      then Some (Error (if FindElement path d = None then ''can't find element '' @ path
                        else ''can't find attribute '' @ key))
      else None)"
  using attributeOfElement_missing [of d path key] attributeOfElement_present [of d path key]
  by simp

lemma case_value_error:
  "(case x of (v, None) \<Rightarrow> g v | (v, Some err) \<Rightarrow> f err) =
   (case snd x of None \<Rightarrow> g (fst x) | Some err \<Rightarrow> f err)"
  by (simp add: split_beta)

lemma parse_unfold:
  "parse d =
     (case snd (attributeOfElement ''//Seller'' ''IDNum'' d) of
        Some err \<Rightarrow> ([[], [], [], [], [], [], []], Some err)
      | None \<Rightarrow>
     (case snd (attributeOfElement ''//Invoice'' ''IssueDateTime'' d) of
        Some err \<Rightarrow> ([[], [], [], [], [], [], []], Some err)
      | None \<Rightarrow>
     (case snd (attributeOfElement ''//Invoice'' ''InvOrdNum'' d) of
        Some err \<Rightarrow> ([[], [], [], [], [], [], []], Some err)
      | None \<Rightarrow>
     (case snd (attributeOfElement ''//Invoice'' ''BusinUnitCode'' d) of
        Some err \<Rightarrow> ([[], [], [], [], [], [], []], Some err)
      | None \<Rightarrow>
     (case snd (attributeOfElement ''//Invoice'' ''TCRCode'' d) of
        Some err \<Rightarrow> ([[], [], [], [], [], [], []], Some err)
      | None \<Rightarrow>
     (case snd (attributeOfElement ''//Invoice'' ''SoftCode'' d) of
        Some err \<Rightarrow> ([[], [], [], [], [], [], []], Some err)
      | None \<Rightarrow>
     (case snd (attributeOfElement ''//Invoice'' ''TotPrice'' d) of
        Some err \<Rightarrow> ([[], [], [], [], [], [], []], Some err)
      | None \<Rightarrow>
          ([fst (attributeOfElement ''//Seller'' ''IDNum'' d),
            fst (attributeOfElement ''//Invoice'' ''IssueDateTime'' d),
            fst (attributeOfElement ''//Invoice'' ''InvOrdNum'' d),
            fst (attributeOfElement ''//Invoice'' ''BusinUnitCode'' d),
            fst (attributeOfElement ''//Invoice'' ''TCRCode'' d),
            fst (attributeOfElement ''//Invoice'' ''SoftCode'' d),
            fst (attributeOfElement ''//Invoice'' ''TotPrice'' d)], None))))))))"
  unfolding parse_def case_value_error ..

lemma parse_first_missing:
  assumes "find (missing d) field_locators = Some (path, key)"
  shows "parse d = ([[], [], [], [], [], [], []], snd (attributeOfElement path key d))
       \<and> snd (attributeOfElement path key d) \<noteq> None"
  using assms unfolding parse_unfold snd_attributeOfElement field_locators_def
  by (simp split: if_splits)

lemma parse_none_missing:
  assumes "find (missing d) field_locators = None"
  shows "snd (parse d) = None"
  using assms unfolding parse_unfold snd_attributeOfElement field_locators_def
  by (simp split: if_splits)


lemma WriteIIC_parse_error:
  fixes signer :: "('cfg, 'dev) SafeNet" and w :: "('dev, 'fs) world"
  assumes "ReadFromFile files (InFile ps) (fs w) = Inr d" and "parse d = (parsed, Some err)"
  shows "WriteIIC files signer SHA256 MD5 ps w = (Returns (Some err), w\<lparr>tree := d\<rparr>)"
  using assms by (simp add: WriteIIC_def Let_def)

lemma WriteIIC_generate_error:
  fixes signer :: "('cfg, 'dev) SafeNet" and w :: "('dev, 'fs) world"
  assumes "ReadFromFile files (InFile ps) (fs w) = Inr d" and "parse d = (parsed, None)"
      and "fst (GenerateIIC signer SHA256 MD5 (SafenetConfig ps) parsed (w\<lparr>tree := d\<rparr>)) =
             (IIC, IICSignature, Some err)"
  shows "WriteIIC files signer SHA256 MD5 ps w =
           (Returns (Some err),
            snd (GenerateIIC signer SHA256 MD5 (SafenetConfig ps) parsed (w\<lparr>tree := d\<rparr>)))"
proof -
  obtain w2 where "GenerateIIC signer SHA256 MD5 (SafenetConfig ps) parsed (w\<lparr>tree := d\<rparr>) =
      ((IIC, IICSignature, Some err), w2)"
    using assms(3)
    by (cases "GenerateIIC signer SHA256 MD5 (SafenetConfig ps) parsed (w\<lparr>tree := d\<rparr>)") simp
  then show ?thesis using assms(1,2) by (simp add: WriteIIC_def Let_def)
qed

lemma fixture_docs:
  "FindElement ''//Seller'' invoice_doc = Some 2"
  "FindElement ''//Invoice'' invoice_doc = Some 3"
  "Attr invoice_doc 2 = [(''IDNum'', ''A'')]"
  "Attr invoice_doc 3 = invoice_attrs"
  "FindElement ''//Seller'' doc_without_Seller = None"
  "FindElement ''//Invoice'' doc_without_Seller = Some 3"
  "Attr doc_without_Seller 3 = invoice_attrs"
  "FindElement ''//Seller'' doc_without_TCRCode = Some 2"
  "FindElement ''//Invoice'' doc_without_TCRCode = Some 3"
  "Attr doc_without_TCRCode 2 = [(''IDNum'', ''A'')]"
  "Attr doc_without_TCRCode 3 =
     [(''IssueDateTime'', ''B''), (''InvOrdNum'', ''C''), (''IIC'', ''old''),
      (''BusinUnitCode'', ''D''), (''SoftCode'', ''F''), (''TotPrice'', ''G'')]"
  by (simp_all add: FindElement_def invoice_doc_def doc_without_Seller_def
      doc_without_TCRCode_def invoice_attrs_def)

lemma fixture_parse:
  "parse invoice_doc = (letters, None)"
  "parse doc_without_Seller =
     ([[], [], [], [], [], [], []], Some (Error ''can't find element //Seller''))"
  "parse doc_without_TCRCode =
     ([[], [], [], [], [], [], []], Some (Error ''can't find attribute TCRCode''))"
  by (simp_all add: parse_unfold attributeOfElement_cases fixture_docs SelectAttr_def
      invoice_attrs_def letters_def)

lemma fixture_missing:
  "find (missing doc_without_Seller) field_locators = Some (''//Seller'', ''IDNum'')"
  "find (missing doc_without_TCRCode) field_locators = Some (''//Invoice'', ''TCRCode'')"
  by (simp_all add: field_locators_def missing_def fixture_docs SelectAttr_def invoice_attrs_def)

lemma names_end: "names (Error (p @ name)) name"
  unfolding names_def by (simp only: error.sel suffix_imp_sublist suffixI)

text \<open>
  Claim C3, as amended. An error of the field extraction names the one thing that was
  not found: for the first missing field, when its element is absent the message is
  \<open>can't find element\<close> followed by the path of the element, and when the element is
  there without the attribute the message is \<open>can't find attribute\<close> followed by the key
  of the attribute. (The claim as stated asks for both names in every error.)
\<close>

theorem extraction_error_names_what_is_missing:
  assumes "snd (parse d) = Some err"
  shows "\<exists>path key. find (missing d) field_locators = Some (path, key)
          \<and> (if FindElement path d = None
              then err = Error (''can't find element '' @ path) \<and> names err path
              else err = Error (''can't find attribute '' @ key) \<and> names err key)"
proof (cases "find (missing d) field_locators")
  case None
  then show ?thesis using assms parse_none_missing by simp
next
  case (Some l)
  obtain path key where l: "l = (path, key)" by (cases l)
  have m: "missing d (path, key)" using Some l by (auto simp: find_Some_iff)
  have "snd (parse d) = snd (attributeOfElement path key d)"
    using parse_first_missing [of d path key] Some l by simp
  then have "err = Error (if FindElement path d = None then ''can't find element '' @ path
                        else ''can't find attribute '' @ key)"
    using assms m by (simp add: snd_attributeOfElement)
  then have "if FindElement path d = None
      then err = Error (''can't find element '' @ path) \<and> names err path
      else err = Error (''can't find attribute '' @ key) \<and> names err key"
    using names_end [of "''can't find element ''" path] names_end [of "''can't find attribute ''" key]
    by (simp split: if_splits)
  then show ?thesis using Some l by blast
qed

theorem extraction_error_names_what_is_missing_witness:
  "snd (parse doc_without_TCRCode) = Some (Error ''can't find attribute TCRCode'')
   \<and> find (missing doc_without_TCRCode) field_locators = Some (''//Invoice'', ''TCRCode'')
   \<and> FindElement ''//Invoice'' doc_without_TCRCode = Some 3
   \<and> names (Error ''can't find attribute TCRCode'') ''TCRCode''"
  using extraction_error_names_what_is_missing
    [of doc_without_TCRCode "Error ''can't find attribute TCRCode''"]
  by (simp add: fixture_parse fixture_missing fixture_docs)

text \<open>
  Without the \<^verbatim>\<open>Seller\<close> element the error does not name the attribute \<^verbatim>\<open>IDNum\<close>;
  without the attribute \<^verbatim>\<open>TCRCode\<close> the error does not name the node \<^verbatim>\<open>Invoice\<close>.
\<close>

theorem extraction_error_counterexample:
  "snd (parse doc_without_Seller) = Some (Error ''can't find element //Seller'')
   \<and> \<not> names (Error ''can't find element //Seller'') ''IDNum''
   \<and> snd (parse doc_without_TCRCode) = Some (Error ''can't find attribute TCRCode'')
   \<and> \<not> names (Error ''can't find attribute TCRCode'') ''Invoice''"
proof -
  have "\<not> names (Error ''can't find element //Seller'') ''IDNum''"
    "\<not> names (Error ''can't find attribute TCRCode'') ''Invoice''"
    by code_simp+
  then show ?thesis by (simp add: fixture_parse)
qed


lemma fixture_files:
  "ReadFromFile stub_files (InFile stub_params) (fs (world_with d)) = Inr d"
  "ReadFromFile stub_files (InFile stub_params) [''in.xml'' \<mapsto> d] = Inr d"
  "SafenetConfig stub_params = ()"
  "dev (world_with d) = 0"
  "events (world_with d) = []"
  "fs (world_with d) = [''in.xml'' \<mapsto> d]"
  by (simp_all add: stub_files_def stub_params_def world_with_def world0_def)

text \<open>
  Claim C5. When a field is missing from the document, \<^verbatim>\<open>parse\<close> returns the error of the
  first missing field together with seven empty strings, and WriteIIC returns that
  error with the signing device and the trace of calls as they were: GenerateIIC was
  not run and the signer was not called.
\<close>

theorem parse_short_circuits:
  fixes signer :: "('cfg, 'dev) SafeNet" and w :: "('dev, 'fs) world"
  assumes "ReadFromFile files (InFile ps) (fs w) = Inr d"
      and "find (missing d) field_locators = Some (path, key)"
  shows "\<exists>err. snd (attributeOfElement path key d) = Some err
             \<and> parse d = ([[], [], [], [], [], [], []], Some err)
             \<and> WriteIIC files signer SHA256 MD5 ps w = (Returns (Some err), w\<lparr>tree := d\<rparr>)"
proof -
  from parse_first_missing [OF assms(2)] obtain err where
    err: "snd (attributeOfElement path key d) = Some err"
      "parse d = ([[], [], [], [], [], [], []], Some err)"
    by auto
  from WriteIIC_parse_error [OF assms(1) err(2)] err show ?thesis by blast
qed

theorem parse_short_circuits_witness:
  "ReadFromFile stub_files (InFile stub_params) (fs (world_with doc_without_TCRCode)) =
     Inr doc_without_TCRCode
   \<and> find (missing doc_without_TCRCode) field_locators = Some (''//Invoice'', ''TCRCode'')
   \<and> parse doc_without_TCRCode =
       ([[], [], [], [], [], [], []], Some (Error ''can't find attribute TCRCode''))
   \<and> WriteIIC stub_files stub_signer (stub_hash 32) (stub_hash 16) stub_params
         (world_with doc_without_TCRCode) =
       (Returns (Some (Error ''can't find attribute TCRCode'')),
        (world_with doc_without_TCRCode)\<lparr>tree := doc_without_TCRCode\<rparr>)
   \<and> events ((world_with doc_without_TCRCode)\<lparr>tree := doc_without_TCRCode\<rparr>) = []"
  using parse_short_circuits [of stub_files stub_params "world_with doc_without_TCRCode"
      doc_without_TCRCode "''//Invoice''" "''TCRCode''" stub_signer "stub_hash 32" "stub_hash 16"]
  by (simp add: fixture_files fixture_missing fixture_parse)

text \<open>
  Claim C6. When the signer fails to sign, GenerateIIC returns its error and two empty
  strings, and WriteIIC returns that error with the document in memory as it was read
  and the file system as it was: the calls made are those of GenerateIIC, and no file
  was written.
\<close>

theorem sign_failure_leaves_document:
  fixes signer :: "('cfg, 'dev) SafeNet" and w :: "('dev, 'fs) world"
  assumes "ReadFromFile files (InFile ps) (fs w) = Inr d"
      and "parse d = (parsed, None)"
      and "fst (Initialize signer (SafenetConfig ps) (dev w)) = None"
      and "snd (Write SHA256 (New SHA256) (bytes_of (plainIIC parsed))) = None"
      and "fst (SignPKCS1v15 signer (digest SHA256 (bytes_of (plainIIC parsed)))
                 (snd (Initialize signer (SafenetConfig ps) (dev w)))) = Inl err"
  shows "fst (GenerateIIC signer SHA256 MD5 (SafenetConfig ps) parsed (w\<lparr>tree := d\<rparr>)) =
           ([], [], Some err)
       \<and> fst (WriteIIC files signer SHA256 MD5 ps w) = Returns (Some err)
       \<and> tree (snd (WriteIIC files signer SHA256 MD5 ps w)) = d
       \<and> fs (snd (WriteIIC files signer SHA256 MD5 ps w)) = fs w
       \<and> events (snd (WriteIIC files signer SHA256 MD5 ps w)) =
           events w @ [Initialize_call, printed parsed,
             SignPKCS1v15_call (digest SHA256 (bytes_of (plainIIC parsed))), Finalize_call]"
proof -
  let ?g = "GenerateIIC signer SHA256 MD5 (SafenetConfig ps) parsed (w\<lparr>tree := d\<rparr>)"
  have g: "fst ?g = ([], [], Some err)"
    using assms(3,4,5) by (simp add: GenerateIIC_result)
  have "WriteIIC files signer SHA256 MD5 ps w = (Returns (Some err), snd ?g)"
    using assms(1,2) g by (rule WriteIIC_generate_error)
  moreover have "tree (snd ?g) = d" "fs (snd ?g) = fs w"
    using GenerateIIC_frame [of signer SHA256 MD5 "SafenetConfig ps" parsed "w\<lparr>tree := d\<rparr>"]
    by simp_all
  moreover have "events (snd ?g) = events w @ [Initialize_call, printed parsed,
             SignPKCS1v15_call (digest SHA256 (bytes_of (plainIIC parsed))), Finalize_call]"
    using assms(3,4) by (simp add: GenerateIIC_events)
  ultimately show ?thesis using g by simp
qed

theorem sign_failure_leaves_document_witness:
  "ReadFromFile stub_files (InFile stub_params) (fs (world_with invoice_doc)) = Inr invoice_doc
   \<and> parse invoice_doc = (letters, None)
   \<and> fst (Initialize locked_signer (SafenetConfig stub_params) (dev (world_with invoice_doc))) = None
   \<and> snd (Write (stub_hash 32) (New (stub_hash 32)) (bytes_of (plainIIC letters))) = None
   \<and> fst (SignPKCS1v15 locked_signer (digest (stub_hash 32) (bytes_of (plainIIC letters)))
            (snd (Initialize locked_signer (SafenetConfig stub_params) (dev (world_with invoice_doc))))) =
       Inl (Error ''device locked'')
   \<and> fst (WriteIIC stub_files locked_signer (stub_hash 32) (stub_hash 16) stub_params
            (world_with invoice_doc)) = Returns (Some (Error ''device locked''))
   \<and> tree (snd (WriteIIC stub_files locked_signer (stub_hash 32) (stub_hash 16) stub_params
            (world_with invoice_doc))) = invoice_doc
   \<and> fs (snd (WriteIIC stub_files locked_signer (stub_hash 32) (stub_hash 16) stub_params
            (world_with invoice_doc))) = [''in.xml'' \<mapsto> invoice_doc]"
  using sign_failure_leaves_document [of stub_files stub_params "world_with invoice_doc"
      invoice_doc letters locked_signer "stub_hash 32" "Error ''device locked''" "stub_hash 16"]
  by (simp add: fixture_files fixture_parse stub_simps)

section \<open>Embedding the values\<close>

lemma count_attr_simps [simp]:
  "count_attr k [] = 0"
  "count_attr k (a # as) = (if fst a = k then Suc (count_attr k as) else count_attr k as)"
  "count_attr k (as @ bs) = count_attr k as + count_attr k bs"
  by (simp_all add: count_attr_def)

lemma RemoveAttr_absent: "count_attr k as = 0 \<Longrightarrow> RemoveAttr k as = as"
  by (induction as) (simp_all split: if_splits)

lemma RemoveAttr_append:
  "RemoveAttr k (as @ bs) =
     (if count_attr k as = 0 then as @ RemoveAttr k bs else RemoveAttr k as @ bs)"
  by (induction as) simp_all

lemma count_RemoveAttr: "count_attr k (RemoveAttr k as) = count_attr k as - 1"
  by (induction as) simp_all

lemma count_RemoveAttr_other: "k' \<noteq> k \<Longrightarrow> count_attr k' (RemoveAttr k as) = count_attr k' as"
  by (induction as) simp_all

lemma CreateAttr_absent: "count_attr k as = 0 \<Longrightarrow> CreateAttr k v as = as @ [(k, v)]"
  by (induction as) (simp_all split: if_splits)

lemma SelectAttr_simps:
  "SelectAttr k [] = None"
  "SelectAttr k (a # as) = (if fst a = k then Some a else SelectAttr k as)"
  by (simp_all add: SelectAttr_def)

lemma SelectAttr_append:
  "SelectAttr k (as @ bs) = (if count_attr k as = 0 then SelectAttr k bs else SelectAttr k as)"
  by (induction as) (simp_all add: SelectAttr_simps)

text \<open>The four statements of lines 39 to 43, on the attribute list of the element.\<close>

lemma save_attrs:
  assumes "count_attr a as \<le> 1" "count_attr b as \<le> 1" "a \<noteq> b"
  shows "CreateAttr b s (RemoveAttr b (CreateAttr a v (RemoveAttr a as))) =
           RemoveAttr b (RemoveAttr a as) @ [(a, v), (b, s)]"
proof -
  have 1: "count_attr a (RemoveAttr a as) = 0"
    using assms(1) by (simp add: count_RemoveAttr)
  have 2: "CreateAttr a v (RemoveAttr a as) = RemoveAttr a as @ [(a, v)]"
    using 1 by (rule CreateAttr_absent)
  have 3: "RemoveAttr b (RemoveAttr a as @ [(a, v)]) = RemoveAttr b (RemoveAttr a as) @ [(a, v)]"
    using assms(3) by (simp add: RemoveAttr_append RemoveAttr_absent)
  have "count_attr b (RemoveAttr b (RemoveAttr a as)) = 0"
    using assms(2,3) by (simp add: count_RemoveAttr count_RemoveAttr_other)
  then have 4: "count_attr b (RemoveAttr b (RemoveAttr a as) @ [(a, v)]) = 0"
    using assms(3) by simp
  show ?thesis
    unfolding 2 3 using CreateAttr_absent [OF 4, of s] by simp
qed

lemma save_attrs_counts:
  assumes "count_attr a as \<le> 1" "count_attr b as \<le> 1" "a \<noteq> b"
  shows "count_attr a (RemoveAttr b (RemoveAttr a as)) = 0"
    and "count_attr b (RemoveAttr b (RemoveAttr a as)) = 0"
  using assms by (simp_all add: count_RemoveAttr count_RemoveAttr_other)

lemma save_attrs_again:
  fixes v s :: string
  assumes "count_attr a as \<le> 1" "count_attr b as \<le> 1" "a \<noteq> b"
  defines "as' \<equiv> RemoveAttr b (RemoveAttr a as) @ [(a, v), (b, s)]"
  shows "count_attr a as' = 1" "count_attr b as' = 1"
    "SelectAttr a as' = Some (a, v)" "SelectAttr b as' = Some (b, s)"
    "RemoveAttr b (RemoveAttr a as') @ [(a, v), (b, s)] = as'"
  using save_attrs_counts [OF assms(1,2,3)] assms(3) unfolding as'_def
  by (simp_all add: SelectAttr_append RemoveAttr_append RemoveAttr_absent SelectAttr_simps)


lemma on_found_Some:
  "FindElement path d = Some elem \<Longrightarrow>
     on_found path M d = Some (d\<lparr>Attr := (Attr d)(elem := M (Attr d elem))\<rparr>)"
  by (simp add: on_found_def)

lemma FindElement_Attr_update [simp]:
  "FindElement path (d\<lparr>Attr := A\<rparr>) = FindElement path d"
  by (simp add: FindElement_def)

lemma WriteIIC_save_Some:
  assumes "FindElement ''//Invoice'' d = Some elem"
  shows "WriteIIC_save IIC IICSignature d =
    Some (d\<lparr>Attr := (Attr d)(elem :=
      CreateAttr ''IICSignature'' IICSignature (RemoveAttr ''IICSignature''
        (CreateAttr ''IIC'' IIC (RemoveAttr ''IIC'' (Attr d elem)))))\<rparr>)"
  using assms by (simp add: WriteIIC_save_def on_found_Some)

lemma WriteIIC_save_None:
  "FindElement ''//Invoice'' d = None \<Longrightarrow> WriteIIC_save IIC IICSignature d = None"
  by (simp add: WriteIIC_save_def on_found_def)

text \<open>
  Claim C7. On a document whose \<^verbatim>\<open>Invoice\<close> element has at most one attribute \<^verbatim>\<open>IIC\<close> and
  at most one attribute \<^verbatim>\<open>IICSignature\<close> (attribute names are unique within an element
  of an XML document), the four statements that embed the values leave the element
  with one \<^verbatim>\<open>IIC\<close> and one \<^verbatim>\<open>IICSignature\<close> attribute, which hold the new values; run
  again with the same values on the result, they leave it as it is.
\<close>

theorem save_overwrites_once:
  assumes "FindElement ''//Invoice'' d = Some elem"
      and "count_attr ''IIC'' (Attr d elem) \<le> 1"
      and "count_attr ''IICSignature'' (Attr d elem) \<le> 1"
  shows "\<exists>d'. WriteIIC_save IIC IICSignature d = Some d'
          \<and> count_attr ''IIC'' (Attr d' elem) = 1
          \<and> SelectAttr ''IIC'' (Attr d' elem) = Some (''IIC'', IIC)
          \<and> count_attr ''IICSignature'' (Attr d' elem) = 1
          \<and> SelectAttr ''IICSignature'' (Attr d' elem) = Some (''IICSignature'', IICSignature)
          \<and> WriteIIC_save IIC IICSignature d' = Some d'"
proof -
  define as' where "as' = RemoveAttr ''IICSignature'' (RemoveAttr ''IIC'' (Attr d elem)) @
      [(''IIC'', IIC), (''IICSignature'', IICSignature)]"
  define d' where "d' = d\<lparr>Attr := (Attr d)(elem := as')\<rparr>"
  have ne: "''IIC'' \<noteq> ''IICSignature''" by simp
  have 1: "WriteIIC_save IIC IICSignature d = Some d'"
    unfolding WriteIIC_save_Some [OF assms(1)] save_attrs [OF assms(2,3) ne] d'_def as'_def ..
  have a: "Attr d' elem = as'" by (simp add: d'_def)
  have f: "FindElement ''//Invoice'' d' = Some elem"
    using assms(1) by (simp add: d'_def)
  note again = save_attrs_again [OF assms(2,3) ne, of IIC IICSignature, folded as'_def]
  have c: "count_attr ''IIC'' as' \<le> 1" "count_attr ''IICSignature'' as' \<le> 1"
    using again(1,2) by simp_all
  have "WriteIIC_save IIC IICSignature d' = Some (d'\<lparr>Attr := (Attr d')(elem := as')\<rparr>)"
    unfolding WriteIIC_save_Some [OF f] a save_attrs [OF c ne] again(5) ..
  also have "d'\<lparr>Attr := (Attr d')(elem := as')\<rparr> = d'"
    by (simp add: d'_def)
  finally have 2: "WriteIIC_save IIC IICSignature d' = Some d'" .
  from 1 2 again(1-4) a show ?thesis by simp
qed

theorem save_overwrites_once_witness:
  "FindElement ''//Invoice'' invoice_doc = Some 3
   \<and> count_attr ''IIC'' (Attr invoice_doc 3) = 1
   \<and> SelectAttr ''IIC'' (Attr invoice_doc 3) = Some (''IIC'', ''old'')
   \<and> count_attr ''IICSignature'' (Attr invoice_doc 3) = 0
   \<and> (\<exists>d'. WriteIIC_save ''0a'' ''ff'' invoice_doc = Some d'
          \<and> count_attr ''IIC'' (Attr d' 3) = 1
          \<and> SelectAttr ''IIC'' (Attr d' 3) = Some (''IIC'', ''0a'')
          \<and> count_attr ''IICSignature'' (Attr d' 3) = 1
          \<and> SelectAttr ''IICSignature'' (Attr d' 3) = Some (''IICSignature'', ''ff'')
          \<and> WriteIIC_save ''0a'' ''ff'' d' = Some d')"
  using save_overwrites_once [of invoice_doc 3 "''0a''" "''ff''"]
  by (simp add: fixture_docs invoice_attrs_def SelectAttr_simps)

end
